theory Spec2Isabelle
  imports
    Complex_Main
    "HOL-Library.Multiset"
    "HOL-Library.Char_ord"
    "HOL-Library.List_Lexorder"
    "HOL-Library.AList"
begin

section \<open>Cells, rows and tables\<close>

text \<open>
  A pandas cell is a string, a number, a timestamp or missing. \<open>Null\<close> stands for
  Python's \<open>None\<close>, the float \<open>NaN\<close> and the timestamp \<open>NaT\<close> alike: pandas treats the
  three as "missing" in \<open>fillna\<close>, \<open>sort_values\<close>, \<open>mean\<close> and \<open>drop_duplicates\<close>.
  Numbers are exact reals; floating-point rounding is not modelled.
\<close>

datatype val = Null | Str string | Num real | Time int

text \<open>
  The order \<open>sort_values\<close> and \<open>groupby\<close> compare cells with: strings by code
  point, numbers and timestamps by value. A column holds cells of one kind (a Parquet
  column is typed); across kinds, where Python raises \<open>TypeError\<close>, the order below
  is the fixed order of the kinds. The columns the pipeline sorts hold one kind.
\<close>

fun kind_of :: "val \<Rightarrow> nat" where
  "kind_of Null = 0"
| "kind_of (Str _) = 1"
| "kind_of (Num _) = 2"
| "kind_of (Time _) = 3"

fun val_le :: "val \<Rightarrow> val \<Rightarrow> bool" where
  "val_le (Str x) (Str y) = (x \<le> y)"
| "val_le (Num x) (Num y) = (x \<le> y)"
| "val_le (Time x) (Time y) = (x \<le> y)"
| "val_le a b = (kind_of a \<le> kind_of b)"

instantiation val :: linorder
begin

definition less_eq_val :: "val \<Rightarrow> val \<Rightarrow> bool" where
  "less_eq_val a b = val_le a b"

definition less_val :: "val \<Rightarrow> val \<Rightarrow> bool" where
  "less_val a b = (val_le a b \<and> \<not> val_le b a)"

instance
proof
  fix x y z :: val
  show "(x < y) = (x \<le> y \<and> \<not> y \<le> x)"
    by (simp add: less_val_def less_eq_val_def)
  show "x \<le> x"
    by (cases x) (simp_all add: less_eq_val_def)
  show "x \<le> y \<Longrightarrow> y \<le> z \<Longrightarrow> x \<le> z"
    by (cases x; cases y; cases z) (auto simp: less_eq_val_def)
  show "x \<le> y \<Longrightarrow> y \<le> x \<Longrightarrow> x = y"
    by (cases x; cases y) (auto simp: less_eq_val_def)
  show "x \<le> y \<or> y \<le> x"
    by (cases x; cases y) (auto simp: less_eq_val_def)
qed

end

text \<open>A JSON object and a DataFrame row: a dictionary in insertion order.\<close>

type_synonym pyrow = "(string \<times> val) list"

record dataframe =
  columns :: "string list"
  rows :: "pyrow list"

definition cell :: "string \<Rightarrow> pyrow \<Rightarrow> val" where
  "cell c r = (case map_of r c of None \<Rightarrow> Null | Some v \<Rightarrow> v)"

text \<open>\<open>df[c] = f(df[c])\<close>: the column is rewritten in every row, and added when new.\<close>

definition set_column :: "string \<Rightarrow> (pyrow \<Rightarrow> val) \<Rightarrow> dataframe \<Rightarrow> dataframe" where
  "set_column c f df =
     \<lparr>columns = (if c \<in> set (columns df) then columns df else columns df @ [c]),
      rows = map (\<lambda>r. AList.update c (f r) r) (rows df)\<rparr>"

text \<open>\<open>df.drop(columns=cs)\<close>\<close>

definition drop_columns :: "string list \<Rightarrow> dataframe \<Rightarrow> dataframe" where
  "drop_columns cs df =
     \<lparr>columns = filter (\<lambda>c. c \<notin> set cs) (columns df),
      rows = map (filter (\<lambda>kv. fst kv \<notin> set cs)) (rows df)\<rparr>"

datatype error =
    ParseError
  | KeyError string
  | ValueError string
  | TypeError string
  | FileNotFoundError string
  | IOError string

section \<open>Sorting and duplicate removal\<close>

text \<open>
  \<open>sort_values(by, ascending)\<close> as pandas' \<open>nargsort\<close> computes it, with \<open>na_position\<close>
  at its default \<open>'last'\<close>: the rows with a missing key are set aside and appended in
  their input order; the others are sorted ascending, or, for a descending sort,
  reversed, sorted ascending and reversed again. The underlying sort keeps rows with
  equal keys in the order it receives them.
\<close>

definition sort_values :: "('a \<Rightarrow> val) \<Rightarrow> bool \<Rightarrow> 'a list \<Rightarrow> 'a list" where
  "sort_values k ascending xs =
     (let non_nans = filter (\<lambda>x. k x \<noteq> Null) xs;
          nans = filter (\<lambda>x. k x = Null) xs
      in (if ascending then sort_key k non_nans else rev (sort_key k (rev non_nans))) @ nans)"

text \<open>
  \<open>drop_duplicates(subset=key, keep="last")\<close>: a row stays unless a later row has the
  same key; missing keys count as equal to each other.
\<close>

fun drop_duplicates_last :: "('a \<Rightarrow> val) \<Rightarrow> 'a list \<Rightarrow> 'a list" where
  "drop_duplicates_last k [] = []"
| "drop_duplicates_last k (x # xs) =
     (if k x \<in> set (map k xs) then drop_duplicates_last k xs
      else x # drop_duplicates_last k xs)"

section \<open>CompositeScorer: the numeric core of \<open>compute_metrics\<close>\<close>

text \<open>
  \<open>matrix = agg[score_cols].astype(float)\<close> is a list of float columns; a float cell is
  \<open>real option\<close> with \<open>None\<close> for NaN. Arithmetic on cells propagates NaN.
\<close>

type_synonym fcol = "real option list"

definition nan_add :: "real option \<Rightarrow> real option \<Rightarrow> real option" where
  "nan_add a b = (case (a, b) of (Some x, Some y) \<Rightarrow> Some (x + y) | _ \<Rightarrow> None)"

definition nan_scale :: "real option \<Rightarrow> real \<Rightarrow> real option" where
  "nan_scale a w = map_option (\<lambda>x. x * w) a"

definition values_of :: "fcol \<Rightarrow> real list" where
  "values_of col = List.map_filter id col"

text \<open>\<open>Series.max()\<close>, \<open>np.nanmin\<close> and \<open>np.nanmax\<close> skip NaN; with no value left they give NaN.\<close>

definition nanmax :: "fcol \<Rightarrow> real option" where
  "nanmax col = (case values_of col of [] \<Rightarrow> None | x # xs \<Rightarrow> Some (fold max xs x))"

definition nanmin :: "fcol \<Rightarrow> real option" where
  "nanmin col = (case values_of col of [] \<Rightarrow> None | x # xs \<Rightarrow> Some (fold min xs x))"

text \<open>\<open>Series.mean()\<close> averages the values that are present.\<close>

definition nanmean :: "fcol \<Rightarrow> real option" where
  "nanmean col = (case values_of col of [] \<Rightarrow> None
     | x # xs \<Rightarrow> Some (sum_list (x # xs) / real (length (x # xs))))"

text \<open>\<open>matrix[col] = matrix[col].max() - matrix[col]\<close>\<close>

definition invert :: "fcol \<Rightarrow> fcol" where
  "invert col = map (\<lambda>x. case (nanmax col, x) of (Some m, Some v) \<Rightarrow> Some (m - v) | _ \<Rightarrow> None) col"

text \<open>\<open>matrix.fillna(matrix.mean())\<close>, one column: a NaN mean fills nothing.\<close>

definition fillna_mean :: "fcol \<Rightarrow> fcol" where
  "fillna_mean col = map (\<lambda>x. case x of None \<Rightarrow> nanmean col | Some v \<Rightarrow> Some v) col"

text \<open>
  \<open>MinMaxScaler().fit_transform\<close> on one column (scikit-learn, feature range \<open>(0, 1)\<close>):
  \<open>data_range = data_max - data_min\<close>, \<open>scale_ = 1 / data_range\<close> with a zero range
  replaced by 1, \<open>min_ = 0 - data_min * scale_\<close>, and each cell becomes
  \<open>x * scale_ + min_\<close>. NaN cells are skipped by the fit and stay NaN.
\<close>

definition handle_zeros_in_scale :: "real \<Rightarrow> real" where
  "handle_zeros_in_scale r = (if r = 0 then 1 else r)"

definition minmax_scale :: "fcol \<Rightarrow> fcol" where
  "minmax_scale col =
     (case (nanmin col, nanmax col) of
        (Some lo, Some hi) \<Rightarrow>
          (let data_range = hi - lo;
               scale = 1 / handle_zeros_in_scale data_range;
               min_off = 0 - lo * scale
           in map (map_option (\<lambda>x. x * scale + min_off)) col)
      | _ \<Rightarrow> map (\<lambda>_. None) col)"

text \<open>The weights of \<open>compute_metrics\<close>: a dictionary from metric name to weight.\<close>

type_synonym weights = "(string \<times> real) list"

definition default_weights :: weights where
  "default_weights =
     [(''avg_rating'', 35 / 100), (''num_golf_courses'', 25 / 100),
      (''median_tee_fee'', 2 / 10), (''sum_ratings_count'', 1 / 10),
      (''avg_length_yards'', 0), (''state_golfable'', 1 / 10)]"

text \<open>\<open>score_cols\<close> and \<open>invert_cols\<close>, from the columns of the aggregate.\<close>

definition score_cols_of :: "string list \<Rightarrow> string list" where
  "score_cols_of cols =
     filter (\<lambda>c. c \<in> set cols)
       [''avg_rating'', ''median_tee_fee'', ''num_golf_courses'',
        ''sum_ratings_count'', ''avg_length_yards'', ''state_golfable'']"

definition invert_cols_of :: "string list \<Rightarrow> string list" where
  "invert_cols_of cols = filter (\<lambda>c. c \<in> set cols) [''median_tee_fee'']"

text \<open>\<open>weights = {k: v for k, v in weights.items() if k in score_cols}\<close>\<close>

definition keep_available :: "weights \<Rightarrow> string list \<Rightarrow> weights" where
  "keep_available ws score_cols = filter (\<lambda>kv. fst kv \<in> set score_cols) ws"

text \<open>\<open>total_weight = sum(weights.values()) or 1.0\<close>\<close>

definition total_weight :: "weights \<Rightarrow> real" where
  "total_weight ws = (let s = sum_list (map snd ws) in if s = 0 then 1 else s)"

text \<open>\<open>weights.get(c, 0)\<close>\<close>

definition weights_get :: "weights \<Rightarrow> string \<Rightarrow> real" where
  "weights_get ws c = (case map_of ws c of None \<Rightarrow> 0 | Some v \<Rightarrow> v)"

text \<open>\<open>w = weights.get(c, 0) / total_weight\<close>, with the weights already filtered.\<close>

definition applied_weight :: "weights \<Rightarrow> string list \<Rightarrow> string \<Rightarrow> real" where
  "applied_weight ws score_cols c =
     (let kept = keep_available ws score_cols
      in weights_get kept c / total_weight kept)"

text \<open>
  The active metric set of the specification: the metrics that are columns of the
  aggregate and carry a nonzero weight.
\<close>

definition active_metrics :: "weights \<Rightarrow> string list \<Rightarrow> string list" where
  "active_metrics ws score_cols = filter (\<lambda>c. weights_get ws c \<noteq> 0) score_cols"

text \<open>
  The scaled matrix: each score column, inverted when lower is better, filled with
  its mean, then min-max scaled.
\<close>

definition scaled_column :: "string list \<Rightarrow> string \<Rightarrow> fcol \<Rightarrow> fcol" where
  "scaled_column invert_cols c col =
     minmax_scale (fillna_mean (if c \<in> set invert_cols then invert col else col))"

text \<open>
  \<open>score = 0; for c in score_cols: score = score + scaled_df[c] * w\<close>, over \<open>n\<close> rows.
\<close>

definition weighted_score :: "nat \<Rightarrow> (fcol \<times> real) list \<Rightarrow> fcol" where
  "weighted_score n cws =
     fold (\<lambda>cw acc. map2 nan_add acc (map (\<lambda>x. nan_scale x (snd cw)) (fst cw)))
       cws (replicate n (Some 0))"


section \<open>The file system and the console\<close>

text \<open>
  What a path holds: a table (Parquet or CSV), line-delimited records, a SQLite
  database, or the torso of a write that broke off.
\<close>

datatype content =
    Table dataframe
  | Records "pyrow list"
  | Database string dataframe
  | Partial

datatype message =
    NoRawFiles string
  | NoData
  | Deduplicated string nat
  | WroteParquet string
  | WroteNdjson string
  | WroteSqlite string
  | AllDone nat
  | Saved string string

text \<open>
  The state the scripts act on. \<open>failing\<close> holds the paths at which a physical write
  breaks off midway (disk full, I/O error); \<open>temp_name\<close> gives the name
  \<open>NamedTemporaryFile\<close> creates in the directory of a destination.
\<close>

record world =
  files :: "string \<rightharpoonup> content"
  stdout :: "message list"
  failing :: "string set"
  temp_name :: "string \<Rightarrow> string"

type_synonym 'a io = "world \<Rightarrow> (error + 'a) \<times> world"

definition io_return :: "'a \<Rightarrow> 'a io" where
  "io_return x w = (Inr x, w)"

definition io_raise :: "error \<Rightarrow> 'a io" where
  "io_raise e w = (Inl e, w)"

text \<open>Sequencing: an exception ends the run in the state it was raised in.\<close>

definition io_bind :: "'a io \<Rightarrow> ('a \<Rightarrow> 'b io) \<Rightarrow> 'b io" where
  "io_bind m f w = (case m w of (Inl e, w') \<Rightarrow> (Inl e, w') | (Inr x, w') \<Rightarrow> f x w')"

definition print :: "message \<Rightarrow> unit io" where
  "print m w = (Inr (), w\<lparr>stdout := stdout w @ [m]\<rparr>)"

text \<open>
  Opening a path for writing truncates it, so a write that breaks off leaves a torso
  at that very path.
\<close>

definition write_file :: "string \<Rightarrow> content \<Rightarrow> unit io" where
  "write_file path data w =
     (if path \<in> failing w
      then (Inl (IOError path), w\<lparr>files := (files w)(path \<mapsto> Partial)\<rparr>)
      else (Inr (), w\<lparr>files := (files w)(path \<mapsto> data)\<rparr>))"

text \<open>\<open>os.replace(src, dst)\<close>: one atomic rename.\<close>

definition os_replace :: "string \<Rightarrow> string \<Rightarrow> unit io" where
  "os_replace src dst w =
     (case files w src of
        None \<Rightarrow> (Inl (FileNotFoundError src), w)
      | Some data \<Rightarrow> (Inr (), w\<lparr>files := ((files w)(src := None))(dst \<mapsto> data)\<rparr>))"

text \<open>\<open>os.path.dirname\<close> and \<open>os.path.basename\<close>: split at the last slash.\<close>

definition dirname :: "string \<Rightarrow> string" where
  "dirname p = rev (tl (dropWhile (\<lambda>c. c \<noteq> CHR ''/'') (rev p)))"

definition basename :: "string \<Rightarrow> string" where
  "basename p = rev (takeWhile (\<lambda>c. c \<noteq> CHR ''/'') (rev p))"

text \<open>
  \<open>os.makedirs(d, exist_ok=True)\<close>: directories are not part of the state; the empty
  path is refused.
\<close>

definition makedirs :: "string \<Rightarrow> unit io" where
  "makedirs d = (if d = [] then io_raise (FileNotFoundError d) else io_return ())"

section \<open>CaptureReader: \<open>read_raw_courses\<close>\<close>

text \<open>
  A capture file after \<open>json.load\<close>. \<open>fetched_at\<close> and \<open>offset\<close> are what
  \<open>wrapped.get\<close> returns (\<open>Null\<close> when the key is missing); a \<open>fetched_at\<close> string that
  \<open>pd.to_datetime\<close> can parse is written as the instant \<open>Time t\<close> it parses to. The
  payload may be missing, and so may its \<open>courses\<close> entry.
\<close>

datatype payload = Payload "pyrow list option"

record capture =
  fetched_at :: val
  offset :: val
  payload :: "payload option"

text \<open>
  The files of \<open>raw_dir\<close> by base name, in whatever order the operating system lists
  them; \<open>None\<close> is a file that is not valid JSON.
\<close>

type_synonym directory = "(string \<times> capture option) list"

text \<open>\<open>glob\<close> with the pattern \<open>teeradar_page_*.json\<close>.\<close>

definition matches_pattern :: "string \<Rightarrow> bool" where
  "matches_pattern name =
     (let pre = ''teeradar_page_''; suf = ''.json''
      in length pre + length suf \<le> length name
         \<and> take (length pre) name = pre
         \<and> drop (length name - length suf) name = suf)"

text \<open>\<open>(wrapped.get("payload", {}) or {}).get("courses", [])\<close>\<close>

definition payload_courses :: "payload option \<Rightarrow> pyrow list" where
  "payload_courses p =
     (case p of
        None \<Rightarrow> []
      | Some (Payload None) \<Rightarrow> []
      | Some (Payload (Some cs)) \<Rightarrow> cs)"

text \<open>The provenance stamped on each course of a file.\<close>

definition stamp :: "string \<Rightarrow> capture \<Rightarrow> pyrow \<Rightarrow> pyrow" where
  "stamp fname wrapped c =
     AList.update ''_raw_file'' (Str (basename fname))
       (AList.update ''_offset'' (offset wrapped)
         (AList.update ''_fetched_at'' (fetched_at wrapped) c))"

fun read_files :: "directory \<Rightarrow> error + pyrow list" where
  "read_files [] = Inr []"
| "read_files ((fname, file) # fs) =
     (case file of
        None \<Rightarrow> Inl ParseError
      | Some wrapped \<Rightarrow>
          (case read_files fs of
             Inl e \<Rightarrow> Inl e
           | Inr rest \<Rightarrow> Inr (map (stamp fname wrapped) (payload_courses (payload wrapped)) @ rest)))"

text \<open>\<open>sorted(glob.glob(os.path.join(raw_dir, "teeradar_page_*.json")))\<close>\<close>

definition capture_files :: "directory \<Rightarrow> directory" where
  "capture_files dir = sort_key fst (filter (\<lambda>f. matches_pattern (fst f)) dir)"

definition read_raw_courses :: "string \<Rightarrow> directory \<Rightarrow> pyrow list io" where
  "read_raw_courses raw_dir dir =
     (let files = capture_files dir
      in if files = [] then io_bind (print (NoRawFiles raw_dir)) (\<lambda>_. io_return [])
         else (case read_files files of Inl e \<Rightarrow> io_raise e | Inr rs \<Rightarrow> io_return rs))"

section \<open>AtomicWriter and the other writers of \<open>consolidate_data\<close>\<close>

definition to_parquet_atomic :: "dataframe \<Rightarrow> string \<Rightarrow> unit io" where
  "to_parquet_atomic df out_path =
     io_bind (makedirs (dirname out_path)) (\<lambda>_.
     (\<lambda>w. let tmp_name = temp_name w out_path
          in io_bind (write_file tmp_name (Table df)) (\<lambda>_.
             io_bind (os_replace tmp_name out_path) (\<lambda>_.
             print (WroteParquet out_path)))
               (w\<lparr>files := (files w)(tmp_name \<mapsto> Partial)\<rparr>)))"

definition to_ndjson_atomic :: "pyrow list \<Rightarrow> string \<Rightarrow> unit io" where
  "to_ndjson_atomic records out_path =
     io_bind (makedirs (dirname out_path)) (\<lambda>_.
     (let tmp = out_path @ ''.tmp''
      in io_bind (write_file tmp (Records records)) (\<lambda>_.
         io_bind (os_replace tmp out_path) (\<lambda>_.
         print (WroteNdjson out_path)))))"

text \<open>
  \<open>to_sqlite_replace\<close> writes the table into the database file itself (and then
  creates the index on \<open>course_id\<close>, which is not part of the state).
\<close>

definition to_sqlite_replace :: "dataframe \<Rightarrow> string \<Rightarrow> unit io" where
  "to_sqlite_replace df db_path =
     io_bind (makedirs (dirname db_path)) (\<lambda>_.
     io_bind (write_file db_path (Database ''teeradar_courses'' df)) (\<lambda>_.
     print (WroteSqlite db_path)))"

section \<open>Deduplicator: \<open>main\<close> of \<open>consolidate_data\<close>\<close>

record consolidate_args =
  raw_dir :: string
  out_parquet :: "string option"
  out_ndjson :: "string option"
  sqlite_db :: "string option"
  dedupe_key :: string

text \<open>\<open>pd.DataFrame(rows)\<close>: the columns are the keys in order of first appearance.\<close>

definition first_seen :: "'a list \<Rightarrow> 'a list" where
  "first_seen xs = fold (\<lambda>k acc. if k \<in> set acc then acc else acc @ [k]) xs []"

definition DataFrame :: "pyrow list \<Rightarrow> dataframe" where
  "DataFrame rs = \<lparr>columns = first_seen (concat (map (map fst) rs)), rows = rs\<rparr>"

text \<open>
  \<open>pd.to_numeric(errors="coerce")\<close>: a number stays, anything else becomes NaN (a
  numeric string is written as its number).
\<close>

definition to_numeric_coerce :: "val \<Rightarrow> val" where
  "to_numeric_coerce v = (case v of Num x \<Rightarrow> Num x | _ \<Rightarrow> Null)"

text \<open>\<open>astype(int)\<close> on a float: truncation towards zero.\<close>

definition trunc :: "real \<Rightarrow> real" where
  "trunc x = (if 0 \<le> x then of_int \<lfloor>x\<rfloor> else of_int \<lceil>x\<rceil>)"

text \<open>\<open>.fillna(0).astype(int)\<close>\<close>

definition fillna0_int :: "val \<Rightarrow> val" where
  "fillna0_int v = (case v of Num x \<Rightarrow> Num (trunc x) | _ \<Rightarrow> Num 0)"

text \<open>\<open>pd.to_datetime(errors="coerce")\<close>: what does not parse becomes NaT.\<close>

definition to_datetime_coerce :: "val \<Rightarrow> val" where
  "to_datetime_coerce v = (case v of Time t \<Rightarrow> Time t | _ \<Rightarrow> Null)"

text \<open>The deduplication step of \<open>main\<close>, with the row count it prints.\<close>

definition deduplicate :: "string \<Rightarrow> dataframe \<Rightarrow> dataframe" where
  "deduplicate key df =
     (if key \<in> set (columns df)
      then (if ''_fetched_at'' \<in> set (columns df)
            then (let df1 = set_column ''_fetched_at'' (\<lambda>r. to_datetime_coerce (cell ''_fetched_at'' r)) df
                  in df1\<lparr>rows := drop_duplicates_last (cell key) (sort_values (cell key) True (rows df1))\<rparr>)
            else df\<lparr>rows := drop_duplicates_last (cell key) (rows df)\<rparr>)
      else df)"

definition normalize_numeric :: "dataframe \<Rightarrow> dataframe" where
  "normalize_numeric df =
     (let df1 = (if ''rating'' \<in> set (columns df)
                 then set_column ''rating'' (\<lambda>r. to_numeric_coerce (cell ''rating'' r)) df else df)
      in (if ''ratings_count'' \<in> set (columns df1)
          then set_column ''ratings_count''
                 (\<lambda>r. fillna0_int (to_numeric_coerce (cell ''ratings_count'' r))) df1
          else df1))"

text \<open>
  \<open>json.loads(df.to_json(orient="records"))\<close>: every row with every column, missing
  cells as null, timestamps as epoch numbers.
\<close>

definition to_json_records :: "dataframe \<Rightarrow> pyrow list" where
  "to_json_records df =
     map (\<lambda>r. map (\<lambda>c. (c, case cell c r of Time t \<Rightarrow> Num (of_int t) | v \<Rightarrow> v)) (columns df))
       (rows df)"

text \<open>\<open>if args.out_parquet: ...\<close>: an output is written when its path is given and not empty.\<close>

definition when_given :: "string option \<Rightarrow> (string \<Rightarrow> unit io) \<Rightarrow> unit io" where
  "when_given p act =
     (case p of None \<Rightarrow> io_return () | Some path \<Rightarrow> if path = [] then io_return () else act path)"

definition consolidate_main :: "consolidate_args \<Rightarrow> directory \<Rightarrow> unit io" where
  "consolidate_main args dir =
     io_bind (read_raw_courses (raw_dir args) dir) (\<lambda>rs.
       if rs = [] then print NoData
       else
         (let df0 = normalize_numeric (DataFrame rs);
              df = deduplicate (dedupe_key args) df0
          in io_bind (if dedupe_key args \<in> set (columns df0)
                      then print (Deduplicated (dedupe_key args) (length (rows df)))
                      else io_return ()) (\<lambda>_.
             io_bind (when_given (out_parquet args) (to_parquet_atomic df)) (\<lambda>_.
             io_bind (when_given (out_ndjson args) (to_ndjson_atomic (to_json_records df))) (\<lambda>_.
             io_bind (when_given (sqlite_db args) (to_sqlite_replace df)) (\<lambda>_.
             print (AllDone (length (rows df)))))))))"

section \<open>RegionAggregator: \<open>groupby(group_cols).agg(...)\<close>\<close>

definition bind_err :: "error + 'a \<Rightarrow> ('a \<Rightarrow> error + 'b) \<Rightarrow> error + 'b" where
  "bind_err m f = (case m of Inl e \<Rightarrow> Inl e | Inr x \<Rightarrow> f x)"

text \<open>
  The duplicate removal at the head of \<open>compute_metrics\<close>:
  \<open>sort_values("_fetched_at").drop_duplicates(subset="course_id", keep="last")\<close>.
\<close>

definition dedup_courses :: "dataframe \<Rightarrow> error + dataframe" where
  "dedup_courses df =
     (if ''course_id'' \<in> set (columns df)
      then (if ''_fetched_at'' \<in> set (columns df)
            then Inr (df\<lparr>rows := drop_duplicates_last (cell ''course_id'')
                                    (sort_values (cell ''_fetched_at'') True (rows df))\<rparr>)
            else Inl (KeyError ''_fetched_at''))
      else Inr df)"

definition group_key :: "string list \<Rightarrow> pyrow \<Rightarrow> val list" where
  "group_key group_cols r = map (\<lambda>c. cell c r) group_cols"

text \<open>
  \<open>groupby\<close> with its defaults: rows with a missing key are left out, and the groups
  come sorted by key.
\<close>

definition groupby :: "string list \<Rightarrow> pyrow list \<Rightarrow> (val list \<times> pyrow list) list" where
  "groupby group_cols rs =
     (let keyed = filter (\<lambda>r. Null \<notin> set (group_key group_cols r)) rs
      in map (\<lambda>k. (k, filter (\<lambda>r. group_key group_cols r = k) keyed))
           (sort (remdups (map (group_key group_cols) keyed))))"

definition present :: "string \<Rightarrow> pyrow list \<Rightarrow> val list" where
  "present c rs = filter (\<lambda>v. v \<noteq> Null) (map (cell c) rs)"

definition numbers :: "string \<Rightarrow> pyrow list \<Rightarrow> real list" where
  "numbers c rs = List.map_filter (\<lambda>v. case v of Num x \<Rightarrow> Some x | _ \<Rightarrow> None) (map (cell c) rs)"

definition nunique :: "string \<Rightarrow> pyrow list \<Rightarrow> val" where
  "nunique c rs = Num (real (length (remdups (present c rs))))"

definition agg_mean :: "string \<Rightarrow> pyrow list \<Rightarrow> val" where
  "agg_mean c rs =
     (case numbers c rs of [] \<Rightarrow> Null | x # xs \<Rightarrow> Num (sum_list (x # xs) / real (length (x # xs))))"

definition agg_sum :: "string \<Rightarrow> pyrow list \<Rightarrow> val" where
  "agg_sum c rs = Num (sum_list (numbers c rs))"

definition agg_median :: "string \<Rightarrow> pyrow list \<Rightarrow> val" where
  "agg_median c rs =
     (let xs = sort (numbers c rs); n = length xs
      in if n = 0 then Null
         else if odd n then Num (xs ! (n div 2))
         else Num ((xs ! (n div 2 - 1) + xs ! (n div 2)) / 2))"

text \<open>The numeric reducers need numeric cells; on a string pandas raises.\<close>

definition numeric_column :: "string \<Rightarrow> pyrow list \<Rightarrow> bool" where
  "numeric_column c rs = list_all (\<lambda>r. case cell c r of Str _ \<Rightarrow> False | Time _ \<Rightarrow> False | _ \<Rightarrow> True) rs"

text \<open>\<open>agg_dict\<close>: the named aggregations, built from the columns that exist.\<close>

definition agg_dict :: "string list \<Rightarrow> (string \<times> string \<times> (string \<Rightarrow> pyrow list \<Rightarrow> val)) list" where
  "agg_dict cols =
     [(''num_golf_courses'', if ''course_id'' \<in> set cols then ''course_id'' else ''name'', nunique)]
     @ (if ''rating'' \<in> set cols then [(''avg_rating'', ''rating'', agg_mean)] else [])
     @ (if ''ratings_count'' \<in> set cols then [(''sum_ratings_count'', ''ratings_count'', agg_sum)] else [])
     @ (if ''tee_fee'' \<in> set cols then [(''median_tee_fee'', ''tee_fee'', agg_median)] else [])
     @ (if ''length_yards'' \<in> set cols then [(''avg_length_yards'', ''length_yards'', agg_mean)] else [])"

definition aggregate :: "string list \<Rightarrow> dataframe \<Rightarrow> error + dataframe" where
  "aggregate group_cols df =
     (let specs = agg_dict (columns df)
      in case filter (\<lambda>spec. fst (snd spec) \<notin> set (columns df)) specs of
           spec # _ \<Rightarrow> Inl (KeyError (fst (snd spec)))
         | [] \<Rightarrow>
            (case filter (\<lambda>spec. \<not> numeric_column (fst (snd spec)) (rows df)) (tl specs) of
               spec # _ \<Rightarrow> Inl (TypeError (fst (snd spec)))
             | [] \<Rightarrow>
                 Inr \<lparr>columns = group_cols @ map fst specs,
                      rows = map (\<lambda>(k, grp). zip group_cols k
                                    @ map (\<lambda>spec. (fst spec, snd (snd spec) (fst (snd spec)) grp)) specs)
                               (groupby group_cols (rows df))\<rparr>))"

section \<open>GolfabilityEnricher\<close>

definition char_lower :: "char \<Rightarrow> char" where
  "char_lower c = (if CHR ''A'' \<le> c \<and> c \<le> CHR ''Z'' then char_of (of_char c + (32::nat)) else c)"

definition lower :: "string \<Rightarrow> string" where
  "lower s = map char_lower s"

text \<open>\<open>cols_lower = {c.lower(): c for c in states.columns}\<close>: a later column wins.\<close>

definition cols_lower :: "string list \<Rightarrow> (string \<times> string) list" where
  "cols_lower cols = fold (\<lambda>c m. AList.update (lower c) c m) cols []"

definition rename_map_of :: "string list \<Rightarrow> (string \<times> string) list" where
  "rename_map_of cols =
     (let cl = cols_lower cols;
          m1 = (case map_of cl ''state'' of Some c \<Rightarrow> [(c, ''state'')] | None \<Rightarrow> []);
          m2 = (case map_of cl ''state_name'' of
                  Some c \<Rightarrow> AList.update c ''state_name'' m1 | None \<Rightarrow> m1)
      in (case map_of cl ''golfable_year_round'' of
            Some c \<Rightarrow> AList.update c ''golfable_year_round'' m2
          | None \<Rightarrow>
              (case map_of cl ''golfable'' of
                 Some c \<Rightarrow> AList.update c ''golfable_year_round'' m2
               | None \<Rightarrow> m2)))"

text \<open>\<open>states.rename(columns=rename_map)\<close>\<close>

definition rename_columns :: "(string \<times> string) list \<Rightarrow> dataframe \<Rightarrow> dataframe" where
  "rename_columns m df =
     (let f = (\<lambda>c. case map_of m c of Some c' \<Rightarrow> c' | None \<Rightarrow> c)
      in \<lparr>columns = map f (columns df), rows = map (map (\<lambda>kv. (f (fst kv), snd kv))) (rows df)\<rparr>)"

text \<open>
  \<open>left.merge(right[right_cols], left_on=..., right_on=..., how='left')\<close>: the left rows
  in their order; a left row yields one output row for each right row with the same
  key, in the right table's order, or one row with the right cells missing when there
  is none. A key column of the same name on both sides appears once.
\<close>

definition merge_row ::
  "string \<Rightarrow> string \<Rightarrow> string list \<Rightarrow> pyrow list \<Rightarrow> pyrow \<Rightarrow> pyrow list" where
  "merge_row left_on right_on extra right_rows l =
     (let matches = filter (\<lambda>r. cell right_on r = cell left_on l) right_rows
      in if matches = [] then [l @ map (\<lambda>c. (c, Null)) extra]
         else map (\<lambda>r. l @ map (\<lambda>c. (c, cell c r)) extra) matches)"

definition merge_left ::
  "string \<Rightarrow> string \<Rightarrow> string list \<Rightarrow> dataframe \<Rightarrow> dataframe \<Rightarrow> dataframe" where
  "merge_left left_on right_on right_cols left right =
     (let extra = filter (\<lambda>c. c \<noteq> left_on) right_cols
      in \<lparr>columns = columns left @ extra,
          rows = concat (map (merge_row left_on right_on extra (rows right)) (rows left))\<rparr>)"

definition is_num :: "val \<Rightarrow> bool" where
  "is_num v = (case v of Num _ \<Rightarrow> True | _ \<Rightarrow> False)"

text \<open>Lines 59 to 79 of \<open>compute_metrics\<close>, on the reference table \<open>read_csv\<close> returned.\<close>

definition enrich_with :: "dataframe \<Rightarrow> dataframe \<Rightarrow> error + dataframe" where
  "enrich_with csv agg =
     (let states = rename_columns (rename_map_of (columns csv)) csv
      in if ''golfable_year_round'' \<in> set (columns states)
         then
           (if \<not> list_all (\<lambda>r. is_num (cell ''golfable_year_round'' r)) (rows states)
            then Inl (ValueError ''cannot convert to int'')
            else
              (let states1 = set_column ''golfable_year_round''
                               (\<lambda>r. fillna0_int (cell ''golfable_year_round'' r)) states;
                   agg1 =
                     (if ''state'' \<in> set (columns agg) \<and> ''state'' \<in> set (columns states1)
                      then merge_left ''state'' ''state'' [''state'', ''golfable_year_round''] agg states1
                      else if ''state'' \<in> set (columns agg) \<and> ''state_name'' \<in> set (columns states1)
                      then merge_left ''state'' ''state_name''
                             [''state_name'', ''golfable_year_round''] agg states1
                      else agg)
               in if ''golfable_year_round'' \<notin> set (columns agg1)
                  then Inl (KeyError ''golfable_year_round'')
                  else Inr (drop_columns [''golfable_year_round'', ''state_name'']
                              (set_column ''state_golfable''
                                 (\<lambda>r. fillna0_int (cell ''golfable_year_round'' r)) agg1))))
         else Inr agg)"

text \<open>\<open>if state_golfable_csv and os.path.exists(state_golfable_csv): ...\<close>\<close>

definition enrich :: "(string \<rightharpoonup> content) \<Rightarrow> string option \<Rightarrow> dataframe \<Rightarrow> error + dataframe" where
  "enrich fs state_golfable_csv agg =
     (case state_golfable_csv of
        None \<Rightarrow> Inr agg
      | Some path \<Rightarrow>
          if path = [] then Inr agg
          else (case fs path of
                  None \<Rightarrow> Inr agg
                | Some (Table csv) \<Rightarrow> enrich_with csv agg
                | Some _ \<Rightarrow> Inl ParseError))"

section \<open>CompositeScorer: score, rank and rounding\<close>

definition as_float :: "val \<Rightarrow> real option" where
  "as_float v = (case v of Num x \<Rightarrow> Some x | _ \<Rightarrow> None)"

definition of_float :: "real option \<Rightarrow> val" where
  "of_float x = (case x of Some v \<Rightarrow> Num v | None \<Rightarrow> Null)"

text \<open>
  Lines 98 to 126: the score of every row of the aggregate. \<open>MinMaxScaler\<close> refuses a
  matrix without rows.
\<close>

definition score_column :: "weights \<Rightarrow> dataframe \<Rightarrow> error + fcol" where
  "score_column ws agg =
     (let score_cols = score_cols_of (columns agg);
          invert_cols = invert_cols_of (columns agg);
          n = length (rows agg)
      in if score_cols \<noteq> []
         then (if n = 0 then Inl (ValueError ''Found array with 0 sample(s)'')
               else Inr (weighted_score n
                      (map (\<lambda>c. (scaled_column invert_cols c (map (\<lambda>r. as_float (cell c r)) (rows agg)),
                                 applied_weight ws score_cols c)) score_cols)))
         else Inr (replicate n (Some 0)))"

text \<open>\<open>agg["score"] = score\<close>\<close>

definition with_score :: "fcol \<Rightarrow> dataframe \<Rightarrow> dataframe" where
  "with_score score agg =
     \<lparr>columns = (if ''score'' \<in> set (columns agg) then columns agg else columns agg @ [''score'']),
      rows = map2 (\<lambda>r s. AList.update ''score'' (of_float s) r) (rows agg) score\<rparr>"

text \<open>
  \<open>agg.sort_values("score", ascending=False).reset_index(drop=True)\<close> and
  \<open>agg["rank"] = agg.index + 1\<close>
\<close>

definition rank_rows :: "pyrow list \<Rightarrow> pyrow list" where
  "rank_rows rs =
     map (\<lambda>ir. AList.update ''rank'' (Num (real (fst ir + 1))) (snd ir))
       (enumerate 0 (sort_values (cell ''score'') False rs))"

definition with_rank :: "dataframe \<Rightarrow> dataframe" where
  "with_rank agg =
     \<lparr>columns = (if ''rank'' \<in> set (columns agg) then columns agg else columns agg @ [''rank'']),
      rows = rank_rows (rows agg)\<rparr>"

text \<open>\<open>Series.round(d)\<close>: to \<open>d\<close> decimals, halves to the even neighbour.\<close>

definition round_half_even :: "real \<Rightarrow> int" where
  "round_half_even y =
     (let f = \<lfloor>y\<rfloor>; d = y - of_int f
      in if d < 1 / 2 then f else if 1 / 2 < d then f + 1 else if even f then f else f + 1)"

definition round_to :: "nat \<Rightarrow> val \<Rightarrow> val" where
  "round_to d v = (case v of Num x \<Rightarrow> Num (of_int (round_half_even (x * 10 ^ d)) / 10 ^ d) | _ \<Rightarrow> v)"

definition round_column :: "string \<Rightarrow> nat \<Rightarrow> dataframe \<Rightarrow> dataframe" where
  "round_column c d df =
     (if c \<in> set (columns df) then set_column c (\<lambda>r. round_to d (cell c r)) df else df)"

text \<open>The message of the \<open>ValueError\<close> raised when there is nothing to group by.\<close>

definition no_group_cols_message :: string where
  "no_group_cols_message =
     ''No city/state columns found to group by; ensure courses include 'city' or 'state'' @ [CHR 0x27]"

definition compute_metrics ::
  "(string \<rightharpoonup> content) \<Rightarrow> dataframe \<Rightarrow> weights option \<Rightarrow> string option \<Rightarrow> error + dataframe" where
  "compute_metrics fs courses_df weights state_golfable_csv =
     bind_err (dedup_courses courses_df) (\<lambda>df.
       let group_cols = filter (\<lambda>c. c \<in> set (columns df)) [''city'', ''state'']
       in if group_cols = []
          then Inl (ValueError no_group_cols_message)
          else
            bind_err (aggregate group_cols df) (\<lambda>agg0.
            bind_err (enrich fs state_golfable_csv agg0) (\<lambda>agg.
            bind_err (score_column (case weights of None \<Rightarrow> default_weights | Some ws \<Rightarrow> ws) agg)
              (\<lambda>score.
                 Inr (round_column ''avg_length_yards'' 1
                       (round_column ''median_tee_fee'' 2
                         (round_column ''avg_rating'' 2
                           (with_rank (with_score score agg)))))))))"

section \<open>\<open>main\<close> of \<open>compute_city_metrics\<close>\<close>

record metrics_args =
  courses :: string
  output_path :: string
  csv_out :: string
  state_golfable_csv :: "string option"

definition read_parquet :: "string \<Rightarrow> dataframe io" where
  "read_parquet path w =
     (case files w path of
        None \<Rightarrow> (Inl (FileNotFoundError path), w)
      | Some (Table df) \<Rightarrow> (Inr df, w)
      | Some _ \<Rightarrow> (Inl ParseError, w))"

text \<open>\<open>os.path.dirname(p) or '.'\<close>\<close>

definition dirname_or_dot :: "string \<Rightarrow> string" where
  "dirname_or_dot p = (if dirname p = [] then ''.'' else dirname p)"

text \<open>
  \<open>metrics.to_parquet(args.output)\<close> and \<open>metrics.to_csv(args.csv_out)\<close> write to the
  destination paths themselves.
\<close>

definition metrics_main :: "metrics_args \<Rightarrow> unit io" where
  "metrics_main args =
     io_bind (read_parquet (courses args)) (\<lambda>df.
     io_bind (\<lambda>w. (compute_metrics (files w) df None (state_golfable_csv args), w)) (\<lambda>metrics.
     io_bind (makedirs (dirname_or_dot (output_path args))) (\<lambda>_.
     io_bind (write_file (output_path args) (Table metrics)) (\<lambda>_.
     io_bind (makedirs (dirname_or_dot (csv_out args))) (\<lambda>_.
     io_bind (write_file (csv_out args) (Table metrics)) (\<lambda>_.
     print (Saved (output_path args) (csv_out args))))))))"

section \<open>Weights\<close>

lemma weights_get_keep_available:
  "weights_get (keep_available ws cs) c = (if c \<in> set cs then weights_get ws c else 0)"
proof -
  have "map_of (filter (\<lambda>kv. fst kv \<in> set cs) ws) c = (if c \<in> set cs then map_of ws c else None)"
    by (induction ws) auto
  then show ?thesis by (simp add: weights_get_def keep_available_def)
qed

lemma sum_list_single:
  "distinct cs \<Longrightarrow> (\<Sum>c\<leftarrow>cs. if c = k then v else (0::real)) = (if k \<in> set cs then v else 0)"
  by (induction cs) auto

lemma sum_list_divide:
  "(\<Sum>x\<leftarrow>xs. f x / (d::real)) = (\<Sum>x\<leftarrow>xs. f x) / d"
  by (induction xs) (simp_all add: add_divide_distrib)

lemma sum_list_weights_get:
  assumes "distinct (map fst ws)" and "distinct cs" and "fst ` set ws \<subseteq> set cs"
  shows "(\<Sum>c\<leftarrow>cs. weights_get ws c) = sum_list (map snd ws)"
  using assms
proof (induction ws arbitrary: cs)
  case Nil
  then show ?case by (simp add: weights_get_def)
next
  case (Cons kv ws)
  obtain k v where kv: "kv = (k, v)" by (cases kv)
  have k_in: "k \<in> set cs" and k_notin: "k \<notin> fst ` set ws" and d: "distinct (map fst ws)"
    using Cons.prems by (auto simp: kv)
  have get: "weights_get (kv # ws) c = (if c = k then v else weights_get ws c)" for c
    by (simp add: weights_get_def kv)
  have zero: "weights_get ws k = 0"
    using k_notin by (simp add: weights_get_def map_of_eq_None_iff[THEN iffD2])
  have "(\<Sum>c\<leftarrow>cs. weights_get (kv # ws) c) = (\<Sum>c\<leftarrow>cs. (if c = k then v else 0) + weights_get ws c)"
    by (rule arg_cong[where f = sum_list], rule map_cong) (auto simp: get zero)
  also have "\<dots> = (\<Sum>c\<leftarrow>cs. if c = k then v else 0) + (\<Sum>c\<leftarrow>cs. weights_get ws c)"
    by (simp add: sum_list_addf)
  also have "(\<Sum>c\<leftarrow>cs. if c = k then v else 0) = v"
    using \<open>distinct cs\<close> k_in by (simp add: sum_list_single)
  also have "(\<Sum>c\<leftarrow>cs. weights_get ws c) = sum_list (map snd ws)"
    using Cons.IH[OF d \<open>distinct cs\<close>] Cons.prems(3) by auto
  finally show ?case by (simp add: kv)
qed

lemma distinct_score_cols_of: "distinct (score_cols_of cols)"
  by (simp add: score_cols_of_def)

lemma sum_applied_weight:
  assumes "distinct (map fst ws)" and "distinct cs"
  shows "(\<Sum>c\<leftarrow>cs. applied_weight ws cs c)
           = sum_list (map snd (keep_available ws cs)) / total_weight (keep_available ws cs)"
proof -
  let ?kept = "keep_available ws cs"
  have d: "distinct (map fst ?kept)"
    using assms(1) by (simp add: keep_available_def distinct_map_filter)
  have sub: "fst ` set ?kept \<subseteq> set cs"
    by (auto simp: keep_available_def)
  have "(\<Sum>c\<leftarrow>cs. applied_weight ws cs c) = (\<Sum>c\<leftarrow>cs. weights_get ?kept c) / total_weight ?kept"
    by (simp add: applied_weight_def Let_def sum_list_divide)
  with sum_list_weights_get[OF d assms(2) sub] show ?thesis by simp
qed

lemma kept_sum_pos:
  assumes "distinct (map fst ws)" and "distinct cs"
    and nonneg: "\<forall>kv \<in> set ws. 0 \<le> snd kv"
    and active: "active_metrics ws cs \<noteq> []"
  shows "0 < sum_list (map snd (keep_available ws cs))"
proof -
  let ?kept = "keep_available ws cs"
  obtain c where c: "c \<in> set cs" "weights_get ws c \<noteq> 0"
    using active by (auto simp: active_metrics_def filter_empty_conv)
  then obtain v where v: "map_of ws c = Some v" "v \<noteq> 0"
    by (auto simp: weights_get_def split: option.splits)
  then have mem: "(c, v) \<in> set ?kept"
    using c by (auto simp: keep_available_def dest: map_of_SomeD)
  have all: "\<forall>x \<in> set (map snd ?kept). 0 \<le> x"
    using nonneg by (auto simp: keep_available_def)
  have "0 < v" using nonneg v map_of_SomeD[OF v(1)] by fastforce
  moreover have "v \<in> set (map snd ?kept)" using mem by force
  ultimately show ?thesis
    using all by (meson member_le_sum_list less_le_trans sum_list_nonneg)
qed

text \<open>
  C7. With non-negative weights and a non-empty active metric set, the weights the
  loop applies to the score columns (each \<open>weights.get(c, 0) / total_weight\<close>, after
  the weights of absent metrics were dropped) sum to 1.
\<close>

theorem renormalized_weights_sum_to_one:
  assumes "distinct (map fst ws)"
    and "list_all (\<lambda>kv. 0 \<le> snd kv) ws"
    and "active_metrics ws (score_cols_of cols) \<noteq> []"
  shows "(\<Sum>c\<leftarrow>score_cols_of cols. applied_weight ws (score_cols_of cols) c) = 1"
proof -
  let ?cs = "score_cols_of cols"
  have nonneg: "\<forall>kv \<in> set ws. 0 \<le> snd kv"
    using assms(2) by (simp add: list_all_iff)
  have pos: "0 < sum_list (map snd (keep_available ws ?cs))"
    using kept_sum_pos[OF assms(1) distinct_score_cols_of nonneg assms(3)] .
  then have "total_weight (keep_available ws ?cs) = sum_list (map snd (keep_available ws ?cs))"
    by (simp add: total_weight_def Let_def)
  with pos sum_applied_weight[OF assms(1) distinct_score_cols_of, of cols] show ?thesis
    by simp
qed

theorem renormalized_weights_sum_to_one_witness:
  "distinct (map fst default_weights)
   \<and> list_all (\<lambda>kv. 0 \<le> snd kv) default_weights
   \<and> active_metrics default_weights (score_cols_of [''city'', ''num_golf_courses'', ''avg_rating'']) \<noteq> []
   \<and> (\<Sum>c\<leftarrow>score_cols_of [''city'', ''num_golf_courses'', ''avg_rating''].
          applied_weight default_weights
            (score_cols_of [''city'', ''num_golf_courses'', ''avg_rating'']) c) = 1"
proof -
  have h1: "distinct (map fst default_weights)"
    by (simp add: default_weights_def)
  have h2: "list_all (\<lambda>kv. 0 \<le> snd kv) default_weights"
    by (simp add: default_weights_def)
  have h3: "active_metrics default_weights
              (score_cols_of [''city'', ''num_golf_courses'', ''avg_rating'']) \<noteq> []"
    by (simp add: active_metrics_def score_cols_of_def weights_get_def default_weights_def)
  show ?thesis
    using h1 h2 h3 renormalized_weights_sum_to_one[OF h1 h2 h3] by blast
qed

section \<open>Min-max scaling\<close>

lemma values_of_simps:
  "values_of [] = []"
  "values_of (None # col) = values_of col"
  "values_of (Some x # col) = x # values_of col"
  by (simp_all add: values_of_def)

lemma set_values_of: "set (values_of col) = {x. Some x \<in> set col}"
proof (induction col)
  case Nil
  then show ?case by (simp add: values_of_simps)
next
  case (Cons c col)
  then show ?case by (cases c) (auto simp: values_of_simps)
qed

lemma nanmin_Min: "values_of col \<noteq> [] \<Longrightarrow> nanmin col = Some (Min (set (values_of col)))"
proof (cases "values_of col")
  case (Cons a list)
  then show ?thesis using Min.set_eq_fold[of a list] by (simp add: nanmin_def)
qed simp

lemma nanmax_Max: "values_of col \<noteq> [] \<Longrightarrow> nanmax col = Some (Max (set (values_of col)))"
proof (cases "values_of col")
  case (Cons a list)
  then show ?thesis using Max.set_eq_fold[of a list] by (simp add: nanmax_def)
qed simp

lemma minmax_scale_cell:
  assumes "i < length col" and "col ! i = Some x"
  shows "minmax_scale col ! i =
           Some (if Max (set (values_of col)) = Min (set (values_of col)) then 0
                 else (x - Min (set (values_of col)))
                        / (Max (set (values_of col)) - Min (set (values_of col))))"
proof -
  let ?V = "set (values_of col)"
  have xin: "x \<in> ?V"
    using assms by (auto simp: set_values_of dest: nth_mem)
  then have ne: "values_of col \<noteq> []" by auto
  have lo: "Min ?V \<le> x" and hi: "x \<le> Max ?V"
    using xin by simp_all
  have cell: "minmax_scale col ! i =
      Some (x * (1 / handle_zeros_in_scale (Max ?V - Min ?V))
            + (0 - Min ?V * (1 / handle_zeros_in_scale (Max ?V - Min ?V))))"
    using assms by (simp add: minmax_scale_def nanmin_Min[OF ne] nanmax_Max[OF ne] Let_def)
  show ?thesis
  proof (cases "Max ?V = Min ?V")
    case True
    with lo hi have "x = Min ?V" by simp
    with True cell show ?thesis by (simp add: handle_zeros_in_scale_def)
  next
    case False
    then show ?thesis
      unfolding cell by (simp add: handle_zeros_in_scale_def diff_divide_distrib)
  qed
qed

lemma minmax_scale_range:
  assumes "i < length col" and "col ! i = Some x"
  shows "\<exists>y. minmax_scale col ! i = Some y \<and> 0 \<le> y \<and> y \<le> 1"
proof -
  let ?V = "set (values_of col)"
  have xin: "x \<in> ?V"
    using assms by (auto simp: set_values_of dest: nth_mem)
  have lo: "Min ?V \<le> x" and hi: "x \<le> Max ?V"
    using xin by simp_all
  show ?thesis
  proof (cases "Max ?V = Min ?V")
    case True
    then show ?thesis using minmax_scale_cell[OF assms] by simp
  next
    case False
    with lo hi have pos: "0 < Max ?V - Min ?V" by linarith
    have "0 \<le> (x - Min ?V) / (Max ?V - Min ?V)"
      using lo pos by simp
    moreover have "(x - Min ?V) / (Max ?V - Min ?V) \<le> 1"
      using hi pos by (simp add: divide_le_eq)
    ultimately show ?thesis using minmax_scale_cell[OF assms] False by simp
  qed
qed

lemma length_minmax_scale: "length (minmax_scale col) = length col"
  by (simp add: minmax_scale_def Let_def split: option.splits)


lemma sum_list_all_equal:
  "\<forall>z \<in> set xs. z = (v::real) \<Longrightarrow> sum_list xs = real (length xs) * v"
  by (induction xs) (simp_all add: algebra_simps)







lemma values_of_map_option:
  "values_of (map (map_option f) col) = map f (values_of col)"
proof (induction col)
  case Nil
  then show ?case by (simp add: values_of_simps)
next
  case (Cons c col)
  then show ?case by (cases c) (simp_all add: values_of_simps)
qed


lemma length_invert: "length (invert col) = length col"
  by (simp add: invert_def)





section \<open>Ranking\<close>

lemma mset_sort_values: "mset (sort_values k asc xs) = mset xs"
proof -
  have "mset (filter (\<lambda>x. k x \<noteq> Null) xs) + mset (filter (\<lambda>x. k x = Null) xs) = mset xs"
    by (induction xs) simp_all
  then show ?thesis by (simp add: sort_values_def Let_def)
qed


lemma filter_rev_sort_key_rev:
  "filter (\<lambda>y. k y = s) (rev (sort_key k (rev ys))) = filter (\<lambda>y. k y = s) ys"
proof -
  have "filter (\<lambda>y. k y = s) (rev (sort_key k (rev ys)))
          = rev (filter (\<lambda>y. k y = s) (sort_key k (rev ys)))"
    by (simp add: rev_filter)
  also have "\<dots> = rev (filter (\<lambda>y. k y = s) (rev ys))"
    by (simp add: sort_key_stable)
  also have "\<dots> = filter (\<lambda>y. k y = s) ys"
    by (simp add: rev_filter)
  finally show ?thesis .
qed

lemma sort_values_stable:
  "filter (\<lambda>y. k y = s) (sort_values k asc xs) = filter (\<lambda>y. k y = s) xs"
proof -
  let ?nn = "filter (\<lambda>x. k x \<noteq> Null) xs"
  let ?na = "filter (\<lambda>x. k x = Null) xs"
  have head: "filter (\<lambda>y. k y = s) (if asc then sort_key k ?nn else rev (sort_key k (rev ?nn)))
                = filter (\<lambda>y. k y = s) ?nn"
    by (simp add: sort_key_stable filter_rev_sort_key_rev)
  have split: "filter (\<lambda>y. k y = s) ?nn @ filter (\<lambda>y. k y = s) ?na = filter (\<lambda>y. k y = s) xs"
  proof (cases "s = Null")
    case True
    have "filter (\<lambda>y. k y = s) ?nn = []" using True by (simp add: filter_empty_conv)
    moreover have "filter (\<lambda>y. k y = s) ?na = filter (\<lambda>y. k y = s) xs"
      using True by (simp add: conj_commute)
    ultimately show ?thesis by simp
  next
    case False
    have "filter (\<lambda>y. k y = s) ?na = []" using False by (auto simp: filter_empty_conv)
    moreover have "filter (\<lambda>y. k y = s) ?nn = filter (\<lambda>y. k y = s) xs"
      using False by (auto intro: filter_cong)
    ultimately show ?thesis by simp
  qed
  show ?thesis
    unfolding sort_values_def Let_def filter_append head by (rule split)
qed










section \<open>Reading captures, and the runs that end early\<close>




text \<open>
  C10. Whenever \<open>read_raw_courses\<close> returns no course record, be it because no file
  matches the pattern or because the matching files hold no course, \<open>main\<close> of
  \<open>consolidate_data\<close> prints the no-data message as its last line, ends normally, and
  leaves every file as it was.
\<close>

theorem no_records_no_output:
  assumes "fst (read_raw_courses (raw_dir args) dir w) = Inr []"
  shows "fst (consolidate_main args dir w) = Inr ()
       \<and> files (snd (consolidate_main args dir w)) = files w
       \<and> stdout (snd (consolidate_main args dir w))
           = stdout (snd (read_raw_courses (raw_dir args) dir w)) @ [NoData]"
proof -
  obtain w' where r: "read_raw_courses (raw_dir args) dir w = (Inr [], w')"
    using assms by (cases "read_raw_courses (raw_dir args) dir w") auto
  have fs: "files w' = files w"
    using r by (auto simp: read_raw_courses_def Let_def io_bind_def print_def io_return_def
        io_raise_def split: if_splits sum.splits)
  show ?thesis
    by (simp add: consolidate_main_def io_bind_def r print_def fs)
qed

text \<open>
  C9. When the courses table has neither a \<open>city\<close> nor a \<open>state\<close> column (and, as
  every consolidated table does, carries \<open>_fetched_at\<close> whenever it carries
  \<open>course_id\<close>), \<open>compute_metrics\<close> raises the \<open>ValueError\<close> that names the missing
  region columns, and \<open>main\<close> of \<open>compute_city_metrics\<close> ends with that error in the
  state it started in: no file written, nothing printed.
\<close>

theorem no_region_columns_is_fatal:
  assumes "''city'' \<notin> set (columns df)" and "''state'' \<notin> set (columns df)"
    and "''course_id'' \<in> set (columns df) \<longrightarrow> ''_fetched_at'' \<in> set (columns df)"
    and "files w (courses args) = Some (Table df)"
  shows "compute_metrics fs df weights ref
           = Inl (ValueError no_group_cols_message)
       \<and> metrics_main args w = (Inl (ValueError no_group_cols_message), w)"
proof -
  have cm: "compute_metrics fs df weights ref
              = Inl (ValueError no_group_cols_message)" for fs weights ref
    using assms(1-3) by (simp add: compute_metrics_def dedup_courses_def bind_err_def)
  have "read_parquet (courses args) w = (Inr df, w)"
    using assms(4) by (simp add: read_parquet_def)
  then have "metrics_main args w = (Inl (ValueError no_group_cols_message), w)"
    by (simp add: metrics_main_def io_bind_def cm)
  with cm show ?thesis by simp
qed



theorem no_records_no_output_witness:
  "fst (read_raw_courses ''data/raw''
          [(''teeradar_page_0.json'', Some \<lparr>fetched_at = Time 1, offset = Num 0, payload = Some (Payload (Some []))\<rparr>),
           (''notes.txt'', None)]
          \<lparr>files = Map.empty, stdout = [], failing = {}, temp_name = (\<lambda>p. p @ ''.part'')\<rparr>) = Inr []
   \<and> fst (consolidate_main
          \<lparr>raw_dir = ''data/raw'', out_parquet = Some ''data/processed/courses.parquet'',
            out_ndjson = None, sqlite_db = None, dedupe_key = ''course_id''\<rparr>
          [(''teeradar_page_0.json'', Some \<lparr>fetched_at = Time 1, offset = Num 0, payload = Some (Payload (Some []))\<rparr>),
           (''notes.txt'', None)]
          \<lparr>files = Map.empty, stdout = [], failing = {}, temp_name = (\<lambda>p. p @ ''.part'')\<rparr>) = Inr ()
   \<and> files (snd (consolidate_main
          \<lparr>raw_dir = ''data/raw'', out_parquet = Some ''data/processed/courses.parquet'',
            out_ndjson = None, sqlite_db = None, dedupe_key = ''course_id''\<rparr>
          [(''teeradar_page_0.json'', Some \<lparr>fetched_at = Time 1, offset = Num 0, payload = Some (Payload (Some []))\<rparr>),
           (''notes.txt'', None)]
          \<lparr>files = Map.empty, stdout = [], failing = {}, temp_name = (\<lambda>p. p @ ''.part'')\<rparr>)) = Map.empty
   \<and> stdout (snd (consolidate_main
          \<lparr>raw_dir = ''data/raw'', out_parquet = Some ''data/processed/courses.parquet'',
            out_ndjson = None, sqlite_db = None, dedupe_key = ''course_id''\<rparr>
          [(''teeradar_page_0.json'', Some \<lparr>fetched_at = Time 1, offset = Num 0, payload = Some (Payload (Some []))\<rparr>),
           (''notes.txt'', None)]
          \<lparr>files = Map.empty, stdout = [], failing = {}, temp_name = (\<lambda>p. p @ ''.part'')\<rparr>)) = [NoData]"
proof -
  let ?args = "\<lparr>raw_dir = ''data/raw'', out_parquet = Some ''data/processed/courses.parquet'',
            out_ndjson = None, sqlite_db = None, dedupe_key = ''course_id''\<rparr>"
  let ?dir = "[(''teeradar_page_0.json'', Some \<lparr>fetched_at = Time 1, offset = Num 0, payload = Some (Payload (Some []))\<rparr>),
           (''notes.txt'', None)]"
  let ?w = "\<lparr>files = Map.empty, stdout = [], failing = {}, temp_name = (\<lambda>p. p @ ''.part'')\<rparr>"
  have rd: "read_raw_courses ''data/raw'' ?dir ?w = (Inr [], ?w)"
    by (simp add: read_raw_courses_def capture_files_def matches_pattern_def payload_courses_def
        io_return_def)
  then have h: "fst (read_raw_courses (raw_dir ?args) ?dir ?w) = Inr []" by simp
  from no_records_no_output[OF h] rd h show ?thesis by simp
qed

theorem no_region_columns_is_fatal_witness:
  "''city'' \<notin> set (columns \<lparr>columns = [''name'', ''rating''], rows = [[(''name'', Str ''Pebble''), (''rating'', Num 4)]]\<rparr>)
   \<and> ''state'' \<notin> set (columns \<lparr>columns = [''name'', ''rating''], rows = [[(''name'', Str ''Pebble''), (''rating'', Num 4)]]\<rparr>)
   \<and> ''course_id'' \<notin> set (columns \<lparr>columns = [''name'', ''rating''], rows = [[(''name'', Str ''Pebble''), (''rating'', Num 4)]]\<rparr>)
   \<and> metrics_main
        \<lparr>courses = ''data/courses.parquet'', output_path = ''data/metrics.parquet'',
          csv_out = ''outputs/metrics.csv'', state_golfable_csv = None\<rparr>
        \<lparr>files = [''data/courses.parquet'' \<mapsto>
             Table \<lparr>columns = [''name'', ''rating''], rows = [[(''name'', Str ''Pebble''), (''rating'', Num 4)]]\<rparr>],
          stdout = [], failing = {}, temp_name = (\<lambda>p. p @ ''.part'')\<rparr>
      = (Inl (ValueError no_group_cols_message),
         \<lparr>files = [''data/courses.parquet'' \<mapsto>
             Table \<lparr>columns = [''name'', ''rating''], rows = [[(''name'', Str ''Pebble''), (''rating'', Num 4)]]\<rparr>],
          stdout = [], failing = {}, temp_name = (\<lambda>p. p @ ''.part'')\<rparr>)"
proof -
  let ?df = "\<lparr>columns = [''name'', ''rating''], rows = [[(''name'', Str ''Pebble''), (''rating'', Num 4)]]\<rparr>"
  let ?args = "\<lparr>courses = ''data/courses.parquet'', output_path = ''data/metrics.parquet'',
          csv_out = ''outputs/metrics.csv'', state_golfable_csv = None\<rparr>"
  let ?w = "\<lparr>files = [''data/courses.parquet'' \<mapsto> Table ?df],
          stdout = [], failing = {}, temp_name = (\<lambda>p. p @ ''.part'')\<rparr>"
  have h1: "''city'' \<notin> set (columns ?df)" by simp
  have h2: "''state'' \<notin> set (columns ?df)" by simp
  have h3: "''course_id'' \<notin> set (columns ?df)" by simp
  then have h3': "''course_id'' \<in> set (columns ?df) \<longrightarrow> ''_fetched_at'' \<in> set (columns ?df)" by blast
  have h4: "files ?w (courses ?args) = Some (Table ?df)" by simp
  from no_region_columns_is_fatal[OF h1 h2 h3' h4] h1 h2 h3 show ?thesis by blast
qed

section \<open>Duplicate removal\<close>

text \<open>
  What \<open>drop_duplicates(keep="last")\<close> leaves of each key: one row, the last one
  carrying that key. After the sort by the key itself, as in \<open>main\<close> of
  \<open>consolidate_data\<close>, that is the last such row of the input, whatever its
  \<open>_fetched_at\<close>.
\<close>

lemma drop_duplicates_last_survivor:
  "filter (\<lambda>x. k x = v) (drop_duplicates_last k xs)
     = (if v \<in> k ` set xs then [last (filter (\<lambda>x. k x = v) xs)] else [])"
proof (induction xs)
  case Nil
  then show ?case by simp
next
  case (Cons x xs)
  show ?case
  proof (cases "k x \<in> k ` set xs")
    case True
    then have later: "k x = v \<Longrightarrow> filter (\<lambda>x. k x = v) xs \<noteq> []"
      by (auto simp: filter_empty_conv)
    show ?thesis using True Cons.IH later by auto
  next
    case False
    then have none: "k x = v \<Longrightarrow> filter (\<lambda>x. k x = v) xs = []"
      by (auto simp: filter_empty_conv image_iff)
    show ?thesis using False Cons.IH none by auto
  qed
qed

lemma set_sort_values: "set (sort_values k asc xs) = set xs"
  using mset_sort_values[of k asc xs] by (metis set_mset_mset)

lemma consolidate_survivor_is_last_listed:
  "filter (\<lambda>r. k r = v) (drop_duplicates_last k (sort_values k True xs))
     = (if v \<in> k ` set xs then [last (filter (\<lambda>r. k r = v) xs)] else [])"
  by (simp add: drop_duplicates_last_survivor set_sort_values sort_values_stable)

section \<open>Bounds of the score\<close>

text \<open>
  When every score column holds at least one value and the weights are not negative,
  each scaled cell lies in \<open>[0, 1]\<close>, the weights applied sum to at most 1, and so
  every score is a number in \<open>[0, 1]\<close>; it is 0 when no present metric carries a
  weight.
\<close>

lemma invert_keeps_values:
  assumes "values_of col \<noteq> []"
  shows "values_of (invert col) \<noteq> []"
proof -
  obtain mx where mx: "nanmax col = Some mx" using nanmax_Max[OF assms] by blast
  have "invert col = map (map_option (\<lambda>x. mx - x)) col"
    unfolding invert_def mx by (rule map_cong) (auto split: option.splits)
  then show ?thesis using assms by (simp add: values_of_map_option)
qed

lemma fillna_mean_all_present:
  assumes "values_of col \<noteq> []" and "c \<in> set (fillna_mean col)"
  shows "c \<noteq> None"
proof -
  obtain y ys where "values_of col = y # ys" using assms(1) by (cases "values_of col") auto
  then obtain mean where "nanmean col = Some mean" by (simp add: nanmean_def)
  then show ?thesis using assms(2) by (auto simp: fillna_mean_def split: option.splits)
qed

lemma scaled_column_unit:
  assumes "values_of col \<noteq> []" and "i < length col"
  shows "\<exists>y. scaled_column invert_cols c col ! i = Some y \<and> 0 \<le> y \<and> y \<le> 1"
proof -
  define col' where "col' = (if c \<in> set invert_cols then invert col else col)"
  have len: "length col' = length col" by (simp add: col'_def length_invert)
  have vals: "values_of col' \<noteq> []"
    using assms(1) by (simp add: col'_def invert_keeps_values)
  have i: "i < length (fillna_mean col')" using assms(2) len by (simp add: fillna_mean_def)
  have "fillna_mean col' ! i \<noteq> None"
    using fillna_mean_all_present[OF vals nth_mem[OF i]] .
  then obtain x where x: "fillna_mean col' ! i = Some x" by auto
  show ?thesis
    using minmax_scale_range[OF i x] by (simp add: scaled_column_def col'_def)
qed

lemma length_scaled_column: "length (scaled_column invert_cols c col) = length col"
  by (simp add: scaled_column_def length_minmax_scale fillna_mean_def length_invert)

lemma weighted_fold_bound:
  assumes cols: "\<And>cw i. cw \<in> set cws \<Longrightarrow> i < n \<Longrightarrow>
                   length (fst cw) = n \<and> 0 \<le> snd cw
                   \<and> (\<exists>x. fst cw ! i = Some x \<and> 0 \<le> x \<and> x \<le> 1)"
    and acc: "length acc = n" "\<And>i. i < n \<Longrightarrow> \<exists>y. acc ! i = Some y \<and> 0 \<le> y \<and> y \<le> b"
  shows "length (fold (\<lambda>cw acc. map2 nan_add acc (map (\<lambda>x. nan_scale x (snd cw)) (fst cw))) cws acc) = n
       \<and> (\<forall>i < n. \<exists>y. fold (\<lambda>cw acc. map2 nan_add acc (map (\<lambda>x. nan_scale x (snd cw)) (fst cw))) cws acc ! i
                      = Some y \<and> 0 \<le> y \<and> y \<le> b + sum_list (map snd cws))"
  using assms
proof (induction cws arbitrary: acc b)
  case Nil
  then show ?case by simp
next
  case (Cons cw cws)
  let ?acc' = "map2 nan_add acc (map (\<lambda>x. nan_scale x (snd cw)) (fst cw))"
  have lc: "length (fst cw) = n" if "0 < n"
    using Cons.prems(1)[of cw 0] that by simp
  have len': "length ?acc' = n"
  proof (cases "0 < n")
    case True
    then show ?thesis using lc Cons.prems(2) by simp
  next
    case False
    then show ?thesis using Cons.prems(2) by simp
  qed
  have cell': "\<exists>y. ?acc' ! i = Some y \<and> 0 \<le> y \<and> y \<le> b + snd cw" if i: "i < n" for i
  proof -
    obtain x where x: "fst cw ! i = Some x" "0 \<le> x" "x \<le> 1"
      and w: "0 \<le> snd cw" and l: "length (fst cw) = n"
      using Cons.prems(1)[of cw i] i by auto
    obtain y where y: "acc ! i = Some y" "0 \<le> y" "y \<le> b"
      using Cons.prems(3)[OF i] by blast
    have "?acc' ! i = Some (y + x * snd cw)"
      using i l Cons.prems(2) by (simp add: x y nan_add_def nan_scale_def)
    moreover have "0 \<le> y + x * snd cw" using y(2) x(2) w by simp
    moreover have "x * snd cw \<le> snd cw" using mult_right_mono[OF x(3) w] by simp
    ultimately show ?thesis using y(3) by force
  qed
  have rest: "\<And>cw' i. cw' \<in> set cws \<Longrightarrow> i < n \<Longrightarrow>
                   length (fst cw') = n \<and> 0 \<le> snd cw'
                   \<and> (\<exists>x. fst cw' ! i = Some x \<and> 0 \<le> x \<and> x \<le> 1)"
    using Cons.prems(1) by simp
  from Cons.IH[OF rest len' cell'] show ?case
    by (simp add: add.assoc)
qed


lemma kept_weights_nonneg:
  assumes "list_all (\<lambda>kv. 0 \<le> snd kv) ws"
  shows "\<forall>x \<in> set (map snd (keep_available ws cs)). 0 \<le> x"
  using assms by (auto simp: keep_available_def list_all_iff)

lemma total_weight_pos:
  assumes "list_all (\<lambda>kv. 0 \<le> snd kv) ws"
  shows "0 < total_weight (keep_available ws cs)"
proof -
  have "0 \<le> sum_list (map snd (keep_available ws cs))"
    by (rule sum_list_nonneg) (use kept_weights_nonneg[OF assms, of cs] in blast)
  then show ?thesis by (auto simp: total_weight_def Let_def)
qed

lemma applied_weight_nonneg:
  assumes "list_all (\<lambda>kv. 0 \<le> snd kv) ws"
  shows "0 \<le> applied_weight ws cs c"
proof -
  have "0 \<le> weights_get (keep_available ws cs) c"
  proof (cases "map_of (keep_available ws cs) c")
    case None
    then show ?thesis by (simp add: weights_get_def)
  next
    case (Some v)
    then have "v \<in> set (map snd (keep_available ws cs))"
      by (force dest: map_of_SomeD)
    with kept_weights_nonneg[OF assms, of cs] have "0 \<le> v" by blast
    then show ?thesis using Some by (simp add: weights_get_def)
  qed
  then show ?thesis
    using total_weight_pos[OF assms, of cs] by (simp add: applied_weight_def Let_def)
qed

lemma sum_applied_weight_le_one:
  assumes "distinct (map fst ws)" and "distinct cs"
  shows "(\<Sum>c\<leftarrow>cs. applied_weight ws cs c) \<le> 1"
  unfolding sum_applied_weight[OF assms]
  by (simp add: total_weight_def Let_def)

lemma sum_applied_weight_inactive:
  assumes "distinct (map fst ws)" and "distinct cs" and "active_metrics ws cs = []"
  shows "(\<Sum>c\<leftarrow>cs. applied_weight ws cs c) = 0"
proof -
  have zero: "weights_get ws c = 0" if "c \<in> set cs" for c
    using assms(3) that by (auto simp: active_metrics_def filter_empty_conv)
  have "snd kv = 0" if "kv \<in> set (keep_available ws cs)" for kv
  proof -
    have mem: "kv \<in> set ws" and c: "fst kv \<in> set cs"
      using that by (auto simp: keep_available_def)
    have "map_of ws (fst kv) = Some (snd kv)"
      using assms(1) mem by (cases kv) simp
    then have "weights_get ws (fst kv) = snd kv" by (simp add: weights_get_def)
    with zero[OF c] show ?thesis by simp
  qed
  then have "\<forall>z \<in> set (map snd (keep_available ws cs)). z = 0" by auto
  then have "sum_list (map snd (keep_available ws cs)) = 0"
    using sum_list_all_equal[of "map snd (keep_available ws cs)" 0] by simp
  then show ?thesis unfolding sum_applied_weight[OF assms(1,2)] by simp
qed

lemma score_column_bounds:
  assumes ok: "score_column ws agg = Inr score"
    and dist: "distinct (map fst ws)"
    and nonneg: "list_all (\<lambda>kv. 0 \<le> snd kv) ws"
    and valued: "list_all (\<lambda>c. values_of (map (\<lambda>r. as_float (cell c r)) (rows agg)) \<noteq> [])
                   (score_cols_of (columns agg))"
  shows "length score = length (rows agg)
       \<and> (\<forall>i < length (rows agg). \<exists>y. score ! i = Some y \<and> 0 \<le> y \<and> y \<le> 1
             \<and> (active_metrics ws (score_cols_of (columns agg)) = [] \<longrightarrow> y = 0))"
proof (cases "score_cols_of (columns agg) = []")
  case True
  then have "score = replicate (length (rows agg)) (Some 0)"
    using ok by (simp add: score_column_def Let_def)
  then show ?thesis by simp
next
  case False
  let ?cs = "score_cols_of (columns agg)"
  let ?n = "length (rows agg)"
  let ?cws = "map (\<lambda>c. (scaled_column (invert_cols_of (columns agg)) c
                          (map (\<lambda>r. as_float (cell c r)) (rows agg)),
                        applied_weight ws ?cs c)) ?cs"
  have score: "score = weighted_score ?n ?cws"
    using ok False by (simp add: score_column_def Let_def split: if_splits)
  have weights: "map snd ?cws = map (applied_weight ws ?cs) ?cs"
    by (simp add: comp_def)
  have cols: "length (fst cw) = ?n \<and> 0 \<le> snd cw
                \<and> (\<exists>x. fst cw ! i = Some x \<and> 0 \<le> x \<and> x \<le> 1)"
    if mem: "cw \<in> set ?cws" and lt: "i < ?n" for cw i
  proof -
    obtain c where c: "c \<in> set ?cs"
      and cw: "cw = (scaled_column (invert_cols_of (columns agg)) c
                       (map (\<lambda>r. as_float (cell c r)) (rows agg)), applied_weight ws ?cs c)"
      using mem unfolding set_map by blast
    have v: "values_of (map (\<lambda>r. as_float (cell c r)) (rows agg)) \<noteq> []"
      using valued c by (simp add: list_all_iff)
    have "\<exists>x. fst cw ! i = Some x \<and> 0 \<le> x \<and> x \<le> 1"
      unfolding cw fst_conv by (rule scaled_column_unit[OF v]) (simp add: lt)
    then show ?thesis
      by (simp add: cw length_scaled_column applied_weight_nonneg[OF nonneg])
  qed
  have acc: "\<exists>y. replicate ?n (Some (0::real)) ! i = Some y \<and> 0 \<le> y \<and> y \<le> 0" if "i < ?n" for i
    using that by simp
  have bound: "length score = ?n
       \<and> (\<forall>i < ?n. \<exists>y. score ! i = Some y \<and> 0 \<le> y \<and> y \<le> 0 + sum_list (map snd ?cws))"
    unfolding score weighted_score_def
    by (rule weighted_fold_bound[OF cols _ acc]) simp_all
  have le1: "sum_list (map snd ?cws) \<le> 1"
    unfolding weights by (rule sum_applied_weight_le_one[OF dist distinct_score_cols_of])
  have inactive: "sum_list (map snd ?cws) = 0" if "active_metrics ws ?cs = []"
    unfolding weights by (rule sum_applied_weight_inactive[OF dist distinct_score_cols_of that])
  show ?thesis
  proof (intro conjI allI impI)
    show "length score = ?n" using bound by simp
  next
    fix i assume i: "i < ?n"
    then obtain y where y: "score ! i = Some y" "0 \<le> y" "y \<le> sum_list (map snd ?cws)"
      using bound by auto
    have "y \<le> 1" using y(3) le1 by simp
    moreover have "active_metrics ws ?cs = [] \<longrightarrow> y = 0"
      using y(2,3) inactive by auto
    ultimately show "\<exists>y. score ! i = Some y \<and> 0 \<le> y \<and> y \<le> 1
             \<and> (active_metrics ws ?cs = [] \<longrightarrow> y = 0)"
      using y by blast
  qed
qed

section \<open>Where the code departs from its specification\<close>

lemma to_parquet_atomic_failure_keeps_destination:
  assumes "temp_name w out_path \<noteq> out_path"
    and "fst (to_parquet_atomic df out_path w) = Inl e"
  shows "files (snd (to_parquet_atomic df out_path w)) out_path = files w out_path"
  using assms
  by (auto simp: to_parquet_atomic_def io_bind_def makedirs_def io_raise_def io_return_def
      write_file_def os_replace_def print_def Let_def split: if_splits)

lemma to_parquet_atomic_success:
  assumes "fst (to_parquet_atomic df out_path w) = Inr ()"
  shows "files (snd (to_parquet_atomic df out_path w)) out_path = Some (Table df)"
  using assms
  by (auto simp: to_parquet_atomic_def io_bind_def makedirs_def io_raise_def io_return_def
      write_file_def os_replace_def print_def Let_def split: if_splits)

lemma to_ndjson_atomic_failure_keeps_destination:
  assumes "fst (to_ndjson_atomic records out_path w) = Inl e"
  shows "files (snd (to_ndjson_atomic records out_path w)) out_path = files w out_path"
  using assms
  by (auto simp: to_ndjson_atomic_def io_bind_def makedirs_def io_raise_def io_return_def
      write_file_def os_replace_def print_def Let_def split: if_splits)

text \<open>
  C4. \<open>to_parquet_atomic\<close> and \<open>to_ndjson_atomic\<close> keep the destination when the
  write fails (the three lemmas above). \<open>main\<close> of \<open>compute_city_metrics\<close> does not use
  them: with an earlier \<open>outputs/city_golf_metrics.csv\<close> in place and a CSV write that
  breaks off, the run ends in \<open>IOError\<close> and the destination holds the torso of the
  new file, not the earlier table.
\<close>

theorem metrics_csv_write_is_not_atomic:
  "files \<lparr>files = [''data/courses.parquet'' \<mapsto>
                     Table \<lparr>columns = [''name'', ''city'', ''_fetched_at''],
                            rows = [[(''name'', Str ''Pebble''), (''city'', Str ''Austin''),
                                     (''_fetched_at'', Time 1)]]\<rparr>,
                   ''outputs/city_golf_metrics.csv'' \<mapsto>
                     Table \<lparr>columns = [''city'', ''score''], rows = [[(''city'', Str ''Reno''), (''score'', Num 1)]]\<rparr>],
           stdout = [], failing = {''outputs/city_golf_metrics.csv''},
           temp_name = (\<lambda>p. p @ ''.part'')\<rparr> ''outputs/city_golf_metrics.csv''
     = Some (Table \<lparr>columns = [''city'', ''score''], rows = [[(''city'', Str ''Reno''), (''score'', Num 1)]]\<rparr>)
   \<and> fst (metrics_main
         \<lparr>courses = ''data/courses.parquet'', output_path = ''data/processed/city_golf_metrics.parquet'',
           csv_out = ''outputs/city_golf_metrics.csv'', state_golfable_csv = None\<rparr>
         \<lparr>files = [''data/courses.parquet'' \<mapsto>
                     Table \<lparr>columns = [''name'', ''city'', ''_fetched_at''],
                            rows = [[(''name'', Str ''Pebble''), (''city'', Str ''Austin''),
                                     (''_fetched_at'', Time 1)]]\<rparr>,
                   ''outputs/city_golf_metrics.csv'' \<mapsto>
                     Table \<lparr>columns = [''city'', ''score''], rows = [[(''city'', Str ''Reno''), (''score'', Num 1)]]\<rparr>],
           stdout = [], failing = {''outputs/city_golf_metrics.csv''},
           temp_name = (\<lambda>p. p @ ''.part'')\<rparr>)
     = Inl (IOError ''outputs/city_golf_metrics.csv'')
   \<and> files (snd (metrics_main
         \<lparr>courses = ''data/courses.parquet'', output_path = ''data/processed/city_golf_metrics.parquet'',
           csv_out = ''outputs/city_golf_metrics.csv'', state_golfable_csv = None\<rparr>
         \<lparr>files = [''data/courses.parquet'' \<mapsto>
                     Table \<lparr>columns = [''name'', ''city'', ''_fetched_at''],
                            rows = [[(''name'', Str ''Pebble''), (''city'', Str ''Austin''),
                                     (''_fetched_at'', Time 1)]]\<rparr>,
                   ''outputs/city_golf_metrics.csv'' \<mapsto>
                     Table \<lparr>columns = [''city'', ''score''], rows = [[(''city'', Str ''Reno''), (''score'', Num 1)]]\<rparr>],
           stdout = [], failing = {''outputs/city_golf_metrics.csv''},
           temp_name = (\<lambda>p. p @ ''.part'')\<rparr>)) ''outputs/city_golf_metrics.csv''
     = Some Partial"
  by code_simp

text \<open>
  C1. Two captures hold course \<open>C1\<close>: \<open>teeradar_page_0.json\<close>, fetched at instant 2
  with \<open>tee_fee = 35\<close>, and \<open>teeradar_page_100.json\<close>, fetched earlier at instant 1 with
  \<open>tee_fee = 40\<close>. \<open>main\<close> of \<open>consolidate_data\<close> sorts by \<open>course_id\<close> only and keeps
  the last row, so the table it writes holds the record fetched first. In
  \<open>compute_metrics\<close>, where the sort is by \<open>_fetched_at\<close>, a missing timestamp sorts
  last and its record survives against one with a valid timestamp.
\<close>

theorem dedup_survivor_ignores_fetch_time:
  "files (snd (consolidate_main
         \<lparr>raw_dir = ''data/raw'', out_parquet = Some ''data/processed/courses.parquet'',
           out_ndjson = None, sqlite_db = None, dedupe_key = ''course_id''\<rparr>
         [(''teeradar_page_0.json'',
             Some \<lparr>fetched_at = Time 2, offset = Num 0,
                    payload = Some (Payload (Some [[(''course_id'', Str ''C1''), (''tee_fee'', Num 35)]]))\<rparr>),
          (''teeradar_page_100.json'',
             Some \<lparr>fetched_at = Time 1, offset = Num 100,
                    payload = Some (Payload (Some [[(''course_id'', Str ''C1''), (''tee_fee'', Num 40)]]))\<rparr>)]
         \<lparr>files = Map.empty, stdout = [], failing = {}, temp_name = (\<lambda>p. p @ ''.part'')\<rparr>))
       ''data/processed/courses.parquet''
     = Some (Table \<lparr>columns = [''course_id'', ''tee_fee'', ''_fetched_at'', ''_offset'', ''_raw_file''],
                    rows = [[(''course_id'', Str ''C1''), (''tee_fee'', Num 40), (''_fetched_at'', Time 1),
                             (''_offset'', Num 100), (''_raw_file'', Str ''teeradar_page_100.json'')]]\<rparr>)
   \<and> dedup_courses
         \<lparr>columns = [''course_id'', ''tee_fee'', ''_fetched_at''],
          rows = [[(''course_id'', Str ''C1''), (''tee_fee'', Num 35), (''_fetched_at'', Time 5)],
                  [(''course_id'', Str ''C1''), (''tee_fee'', Num 40), (''_fetched_at'', Null)]]\<rparr>
     = Inr \<lparr>columns = [''course_id'', ''tee_fee'', ''_fetched_at''],
            rows = [[(''course_id'', Str ''C1''), (''tee_fee'', Num 40), (''_fetched_at'', Null)]]\<rparr>"
  by code_simp

text \<open>
  C3. Two regions whose courses all lack a rating: \<open>avg_rating\<close> is missing in every
  row, its mean is missing too, \<open>fillna\<close> fills nothing, and the score of every region
  is NaN although the active metric set (\<open>avg_rating\<close> and \<open>num_golf_courses\<close>, under
  the default weights) is not empty.
\<close>

theorem all_null_metric_gives_nan_scores:
  "compute_metrics Map.empty
     \<lparr>columns = [''course_id'', ''city'', ''state'', ''rating'', ''_fetched_at''],
      rows = [[(''course_id'', Str ''a''), (''city'', Str ''Austin''), (''state'', Str ''TX''),
               (''rating'', Null), (''_fetched_at'', Time 1)],
              [(''course_id'', Str ''d''), (''city'', Str ''Boise''), (''state'', Str ''ID''),
               (''rating'', Null), (''_fetched_at'', Time 1)]]\<rparr> None None
   = Inr \<lparr>columns = [''city'', ''state'', ''num_golf_courses'', ''avg_rating'', ''score'', ''rank''],
          rows = [[(''city'', Str ''Austin''), (''state'', Str ''TX''), (''num_golf_courses'', Num 1),
                   (''avg_rating'', Null), (''score'', Null), (''rank'', Num 1)],
                  [(''city'', Str ''Boise''), (''state'', Str ''ID''), (''num_golf_courses'', Num 1),
                   (''avg_rating'', Null), (''score'', Null), (''rank'', Num 2)]]\<rparr>
   \<and> active_metrics default_weights
        (score_cols_of [''city'', ''state'', ''num_golf_courses'', ''avg_rating'']) 
       = [''avg_rating'', ''num_golf_courses'']"
  by code_simp

section \<open>The enrichment join\<close>

lemma cell_absent:
  assumes "c \<notin> fst ` set r"
  shows "cell c r = Null"
proof -
  have "map_of r c = None" using assms by (simp add: map_of_eq_None_iff)
  then show ?thesis by (simp add: cell_def)
qed
























end
